theory Spec2Isabelle
  imports Main
begin

section \<open>JavaScript values reaching the tool handler\<close>

text \<open>
  The \<open>arguments\<close> of a \<open>call_tool\<close> request are an untyped JSON payload (\<open>any\<close> in the
  source). Numbers are carried as integers: the handler never computes with them, it only
  tests truthiness and hands them on. An object is an association list read with
  \<open>map_of\<close>.
\<close>

datatype json =
    JUndefined
  | JNull
  | JBool bool
  | JNum int
  | JStr string
  | JArr "json list"
  | JObj "(string \<times> json) list"

text \<open>\<open>!v\<close> is \<open>\<not> truthy v\<close>.\<close>

fun truthy :: "json \<Rightarrow> bool" where
  "truthy JUndefined = False"
| "truthy JNull = False"
| "truthy (JBool b) = b"
| "truthy (JNum n) = (n \<noteq> 0)"
| "truthy (JStr s) = (s \<noteq> [])"
| "truthy (JArr xs) = True"
| "truthy (JObj kvs) = True"

text \<open>\<open>typeof v === 'object'\<close>: objects, arrays and \<open>null\<close>.\<close>

fun typeof_object :: "json \<Rightarrow> bool" where
  "typeof_object JNull = True"
| "typeof_object (JArr xs) = True"
| "typeof_object (JObj kvs) = True"
| "typeof_object v = False"

text \<open>
  \<open>v.k\<close> for the property names the handler reads (\<open>textDocument\<close>, \<open>uri\<close>, \<open>position\<close>,
  \<open>line\<close>, \<open>character\<close>): none of them is an own or inherited property of an array or of
  a primitive's wrapper, so only an object can hold them.
\<close>

fun get_prop :: "json \<Rightarrow> string \<Rightarrow> json" where
  "get_prop (JObj kvs) k = (case map_of kvs k of None \<Rightarrow> JUndefined | Some v \<Rightarrow> v)"
| "get_prop v k = JUndefined"

text \<open>\<open>v?.k\<close>: \<open>undefined\<close> when \<open>v\<close> is \<open>undefined\<close> or \<open>null\<close>, the property otherwise.\<close>

fun opt_chain :: "json \<Rightarrow> string \<Rightarrow> json" where
  "opt_chain JUndefined k = JUndefined"
| "opt_chain JNull k = JUndefined"
| "opt_chain v k = get_prop v k"

text \<open>
  A thrown value: an \<open>Error\<close> instance with its message, or any other value by its
  \<open>String(...)\<close> form. \<open>errorMessage\<close> is
  \<open>error instanceof Error ? error.message : String(error)\<close>; \<open>show_exn\<close> is the template
  interpolation of the value.
\<close>

datatype exn = Error string | Thrown string

fun errorMessage :: "exn \<Rightarrow> string" where
  "errorMessage (Error m) = m"
| "errorMessage (Thrown s) = s"

fun show_exn :: "exn \<Rightarrow> string" where
  "show_exn (Error m) = ''Error: '' @ m"
| "show_exn (Thrown s) = s"

section \<open>Editor types\<close>

text \<open>
  A \<open>vscode.Uri\<close> is held by its \<open>toString()\<close> form. The position built from the request
  holds whatever two values the constructor was given; the positions inside a location
  returned by the reference provider are zero-based numbers.
\<close>

datatype uri = Uri string

fun uri_toString :: "uri \<Rightarrow> string" where
  "uri_toString (Uri s) = s"

datatype position = Position json json

record pos =
  line :: nat
  character :: nat

record range =
  range_start :: pos
  range_end :: pos

record location =
  loc_uri :: uri
  loc_range :: range

text \<open>
  Modelled from the spec: the type \<open>ReferencesAndPreview\<close> is declared in \<open>./rosyln\<close>,
  which is not among the sources. Its fields are those of the Reference Result of the
  data model (document uri, range with start and end, preview), which are also the fields
  of the object literal the handler pushes.
\<close>

record ReferencesAndPreview =
  ref_uri :: string
  ref_range :: range
  preview :: string

type_synonym document = "string list"

text \<open>
  The host editor, as the handler sees it. Every call may throw (\<open>Inl\<close>).
  \<open>executeReferenceProvider\<close> resolves to \<open>undefined\<close> (\<open>None\<close>) or to an array of
  locations.
\<close>

record env =
  decodeURIComponent :: "string \<Rightarrow> exn + string"
  Uri_parse :: "json \<Rightarrow> exn + uri"
  new_Position :: "json \<Rightarrow> json \<Rightarrow> exn + position"
  executeReferenceProvider :: "uri \<Rightarrow> position \<Rightarrow> exn + location list option"
  openTextDocument :: "uri \<Rightarrow> exn + document"

text \<open>\<open>document.lineAt(n)\<close> throws outside the document.\<close>

definition lineAt :: "document \<Rightarrow> nat \<Rightarrow> exn + string" where
  "lineAt doc n = (if n < length doc then Inr (doc ! n) else Inl (Error ''Illegal value for `line`''))"

text \<open>
  \<open>String.prototype.trim\<close> on a line of 8-bit characters, each read as the code unit of
  that number: the white space and line terminators below \<open>U+0100\<close> are the six ASCII
  blanks and \<open>U+00A0\<close>. The white space beyond (\<open>U+FEFF\<close>, \<open>U+2028\<close> and the like)
  has no character here, so a line that holds it is outside this model.
\<close>

definition is_space :: "char \<Rightarrow> bool" where
  "is_space c =
     (c \<in> set [CHR 0x09, CHR 0x0A, CHR 0x0B, CHR 0x0C, CHR 0x0D, CHR 0x20, CHR 0xA0])"

definition trim :: "string \<Rightarrow> string" where
  "trim s = rev (dropWhile is_space (rev (dropWhile is_space s)))"

section \<open>Serialisation\<close>

fun digit_char :: "nat \<Rightarrow> char" where
  "digit_char n = (''0123456789abcdef'' ! (n mod 16))"

fun string_of_nat :: "nat \<Rightarrow> string" where
  "string_of_nat n = (if n < 10 then [digit_char n] else string_of_nat (n div 10) @ [digit_char (n mod 10)])"

declare string_of_nat.simps [simp del]

text \<open>The quoting of \<open>JSON.stringify\<close> for a string of 8-bit characters.\<close>

definition json_escape :: "char \<Rightarrow> string" where
  "json_escape c =
     (if c = CHR 0x22 then [CHR 0x5C, CHR 0x22]
      else if c = CHR 0x5C then [CHR 0x5C, CHR 0x5C]
      else if c = CHR 0x08 then [CHR 0x5C, CHR ''b'']
      else if c = CHR 0x0C then [CHR 0x5C, CHR ''f'']
      else if c = CHR 0x0A then [CHR 0x5C, CHR ''n'']
      else if c = CHR 0x0D then [CHR 0x5C, CHR ''r'']
      else if c = CHR 0x09 then [CHR 0x5C, CHR ''t'']
      else if of_char c < (32 :: nat)
        then [CHR 0x5C, CHR ''u'', CHR ''0'', CHR ''0'',
              digit_char (of_char c div 16), digit_char (of_char c mod 16)]
      else [c])"

definition json_string :: "string \<Rightarrow> string" where
  "json_string s = [CHR 0x22] @ concat (map json_escape s) @ [CHR 0x22]"

definition json_key :: "string \<Rightarrow> string" where
  "json_key k = json_string k @ '':''"

definition stringify_pos :: "pos \<Rightarrow> string" where
  "stringify_pos p =
     ''{'' @ json_key ''line'' @ string_of_nat (line p) @ '','' @
     json_key ''character'' @ string_of_nat (character p) @ ''}''"

definition stringify_range :: "range \<Rightarrow> string" where
  "stringify_range r =
     ''{'' @ json_key ''start'' @ stringify_pos (range_start r) @ '','' @
     json_key ''end'' @ stringify_pos (range_end r) @ ''}''"

definition stringify_reference :: "ReferencesAndPreview \<Rightarrow> string" where
  "stringify_reference r =
     ''{'' @ json_key ''uri'' @ json_string (ref_uri r) @ '','' @
     json_key ''range'' @ stringify_range (ref_range r) @ '','' @
     json_key ''preview'' @ json_string (preview r) @ ''}''"

fun join_commas :: "string list \<Rightarrow> string" where
  "join_commas [] = []"
| "join_commas [x] = x"
| "join_commas (x # y # ys) = x @ '','' @ join_commas (y # ys)"

text \<open>\<open>JSON.stringify(result)\<close> for \<open>result\<close> an array of references.\<close>

definition JSON_stringify :: "ReferencesAndPreview list \<Rightarrow> string" where
  "JSON_stringify refs = ''['' @ join_commas (map stringify_reference refs) @ '']''"

section \<open>The \<open>call_tool\<close> handler\<close>

record content_item =
  item_type :: string
  item_text :: string

text \<open>The response envelope; \<open>isError = None\<close> is an envelope with no \<open>isError\<close> field.\<close>

record envelope =
  content :: "content_item list"
  isError :: "bool option"

definition text_content :: "string \<Rightarrow> content_item list" where
  "text_content t = [\<lparr>item_type = ''text'', item_text = t\<rparr>]"

text \<open>What the handler does besides returning: the provider call and the console.\<close>

datatype effect =
    ProviderCall uri position
  | ConsoleWarn string
  | ConsoleLog string
  | ConsoleError string exn

record request =
  name :: string
  arguments :: json

text \<open>The preview of one location (the body of the inner \<open>try\<close>).\<close>

definition location_preview :: "env \<Rightarrow> location \<Rightarrow> exn + string" where
  "location_preview e l =
     (case openTextDocument e (loc_uri l) of
        Inl err \<Rightarrow> Inl err
      | Inr doc \<Rightarrow>
          (case lineAt doc (line (range_start (loc_range l))) of
             Inl err \<Rightarrow> Inl err
           | Inr ln \<Rightarrow> Inr (trim ln)))"

definition to_reference :: "location \<Rightarrow> string \<Rightarrow> ReferencesAndPreview" where
  "to_reference l p =
     \<lparr>ref_uri = uri_toString (loc_uri l),
      ref_range =
        \<lparr>range_start = \<lparr>line = line (range_start (loc_range l)),
                        character = character (range_start (loc_range l))\<rparr>,
         range_end = \<lparr>line = line (range_end (loc_range l)),
                      character = character (range_end (loc_range l))\<rparr>\<rparr>,
      preview = p\<rparr>"

text \<open>
  The loop \<open>for (const location of locations)\<close>: \<open>references\<close> and the console are the
  accumulators. A location whose preview throws is warned about and not pushed.
\<close>

fun references_loop ::
  "env \<Rightarrow> location list \<Rightarrow> ReferencesAndPreview list \<Rightarrow> effect list
     \<Rightarrow> ReferencesAndPreview list \<times> effect list" where
  "references_loop e [] references fx = (references, fx)"
| "references_loop e (l # ls) references fx =
     (case location_preview e l of
        Inr p \<Rightarrow> references_loop e ls (references @ [to_reference l p]) fx
      | Inl err \<Rightarrow>
          references_loop e ls references
            (fx @ [ConsoleWarn (''Failed to get preview for reference: '' @ show_exn err)]))"

text \<open>The outer \<open>catch\<close>.\<close>

definition error_envelope :: "exn \<Rightarrow> envelope" where
  "error_envelope err =
     \<lparr>content = text_content (''Error: '' @ errorMessage err), isError = Some True\<rparr>"

text \<open>\<open>!uri\<close> on the object \<open>Uri.parse\<close> returned: an object is never falsy.\<close>

definition not_object :: "uri \<Rightarrow> bool" where
  "not_object u = False"

definition find_usages :: "env \<Rightarrow> json \<Rightarrow> envelope \<times> effect list" where
  "find_usages e args =
     (if \<not> truthy args \<or> \<not> typeof_object args then
        (\<lparr>content = text_content ''Invalid arguments: arguments must be an object.'',
          isError = Some True\<rparr>, [])
      else
        (case Uri_parse e (opt_chain (get_prop args ''textDocument'') ''uri'') of
           Inl err \<Rightarrow> (error_envelope err, [])
         | Inr u \<Rightarrow>
             if not_object u then
               (\<lparr>content = text_content ''Invalid arguments: textDocument.uri is required.'',
                 isError = Some True\<rparr>, [])
             else
               (case new_Position e (opt_chain (get_prop args ''position'') ''line'')
                       (opt_chain (get_prop args ''position'') ''character'') of
                  Inl err \<Rightarrow> (error_envelope err, [])
                | Inr p \<Rightarrow>
                    (case executeReferenceProvider e u p of
                       Inl err \<Rightarrow>
                         (error_envelope (Error ''Failed to find references''),
                          [ProviderCall u p, ConsoleError ''Error finding references:'' err])
                     | Inr None \<Rightarrow>
                         (\<lparr>content = text_content ''No references found'',
                           isError = Some False\<rparr>, [ProviderCall u p])
                     | Inr (Some locations) \<Rightarrow>
                         (case references_loop e locations [] [ProviderCall u p] of
                            (references, fx) \<Rightarrow>
                              (\<lparr>content = text_content (JSON_stringify references),
                                isError = None\<rparr>,
                               fx @ [ConsoleLog (''Found '' @ string_of_nat (length references)
                                                  @ '' references'')]))))))"

definition call_tool :: "env \<Rightarrow> request \<Rightarrow> envelope \<times> effect list" where
  "call_tool e r =
     (if name r = ''find_usages'' then find_usages e (arguments r)
      else (error_envelope (Error (''Unknown tool: '' @ name r)), []))"

text \<open>
  Modelled from the spec: the type \<open>ReferencesResponse\<close> is declared in \<open>./rosyln\<close>,
  which is not among the sources. It is taken with the two fields the helper reads: a uri
  held as a string and a range, as in the Reference Result of the data model.
\<close>

record ReferencesResponse =
  resp_uri :: string
  resp_range :: range

text \<open>
  The helper \<open>getPreviewForReference\<close> at the top of the file, for a reference whose uri is
  a string: any failure gives the sentinel. Nothing in the file calls it.
\<close>

definition getPreviewForReference :: "env \<Rightarrow> ReferencesResponse \<Rightarrow> string" where
  "getPreviewForReference e reference =
     (case decodeURIComponent e (resp_uri reference) of
        Inl err \<Rightarrow> ''Preview unavailable''
      | Inr s \<Rightarrow>
          (case Uri_parse e (JStr s) of
             Inl err \<Rightarrow> ''Preview unavailable''
           | Inr u \<Rightarrow>
               (case openTextDocument e u of
                  Inl err \<Rightarrow> ''Preview unavailable''
                | Inr doc \<Rightarrow>
                    (case lineAt doc (line (range_start (resp_range reference))) of
                       Inl err \<Rightarrow> ''Preview unavailable''
                     | Inr ln \<Rightarrow> trim ln))))"

section \<open>The message endpoints\<close>

text \<open>
  The closure state of the Express app: \<open>transport\<close> (\<open>None\<close> is \<open>null\<close>; a transport is
  named by the number of the \<open>/sse\<close> connection it was built on) and \<open>messageQueue\<close>. The
  other fields record what the handlers did: the calls of \<open>transport.handlePostMessage\<close>
  in order, every response written to the sink of a posted request, the status given to
  an \<open>/sse\<close> connection, the connections whose \<open>close\<close> handler is registered, the
  transports closed, and the console. Each handler runs to its end before the next event.
\<close>

record msg =
  req_id :: nat
  body :: json

datatype reply =
    TransportReply
  | Json500 json string

record app =
  transport :: "nat option"
  messageQueue :: "msg list"
  delivered :: "(nat \<times> msg) list"
  responses :: "(nat \<times> reply) list"
  sse_status :: "(nat \<times> nat) list"
  closeHandlers :: "nat list"
  closedTransports :: "nat list"
  console :: "string list"

text \<open>
  The protocol SDK as the endpoints see it: \<open>mcpServer.connect(transport)\<close> may throw,
  and \<open>transport.handlePostMessage(req, res, body)\<close> may write a response to \<open>res\<close>
  (first component) and may throw (second component).
\<close>

record sdk =
  connect :: "nat \<Rightarrow> exn option"
  handlePostMessage :: "nat \<Rightarrow> msg \<Rightarrow> bool \<times> exn option"

definition say :: "string \<Rightarrow> app \<Rightarrow> app" where
  "say l s = s\<lparr>console := console s @ [l]\<rparr>"

text \<open>One pass of the body of the drain loop, after the \<open>shift\<close>.\<close>

definition handle_queued :: "sdk \<Rightarrow> nat \<Rightarrow> msg \<Rightarrow> app \<Rightarrow> app" where
  "handle_queued k t m s =
     (case handlePostMessage k t m of
        (replied, thrown) \<Rightarrow>
          (let s1 = s\<lparr>delivered := delivered s @ [(t, m)],
                      responses := responses s @ (if replied then [(req_id m, TransportReply)] else [])\<rparr>
           in case thrown of
                None \<Rightarrow> s1
              | Some err \<Rightarrow> say ''Error handling queued message:'' s1))"

text \<open>\<open>while (messageQueue.length > 0) { ... messageQueue.shift() ... }\<close>\<close>

function drain :: "sdk \<Rightarrow> nat \<Rightarrow> app \<Rightarrow> app" where
  "drain k t s =
     (case messageQueue s of
        [] \<Rightarrow> s
      | m # q \<Rightarrow> drain k t (handle_queued k t m (s\<lparr>messageQueue := q\<rparr>)))"
  by pat_completeness auto
termination
  by (relation "measure (\<lambda>(k, t, s). length (messageQueue s))")
     (auto simp: handle_queued_def say_def Let_def split: prod.splits option.splits)

declare drain.simps [simp del]

text \<open>
  \<open>app.get('/sse')\<close> for connection \<open>c\<close>; \<open>mcp\<close> tells whether the global \<open>mcpServer\<close> is
  set.
\<close>

definition sse :: "sdk \<Rightarrow> bool \<Rightarrow> nat \<Rightarrow> app \<Rightarrow> app" where
  "sse k mcp c s =
     (let s1 = (say ''New SSE connection attempt'' s)\<lparr>transport := Some c\<rparr>
      in if mcp then
           (case connect k c of
              Some err \<Rightarrow>
                (say ''Error in SSE connection:'' s1)\<lparr>sse_status := sse_status s1 @ [(c, 500)]\<rparr>
            | None \<Rightarrow>
                (let s2 = drain k c (say ''Server connected to SSE transport'' s1)
                 in s2\<lparr>closeHandlers := closeHandlers s2 @ [c]\<rparr>))
         else
           (say ''MCP Server not initialized'' s1)\<lparr>sse_status := sse_status s1 @ [(c, 500)]\<rparr>)"

text \<open>The \<open>close\<close> event of connection \<open>c\<close>: the handler, if registered, closes whatever
  transport the variable holds now and clears it.\<close>

definition connection_closed :: "nat \<Rightarrow> app \<Rightarrow> app" where
  "connection_closed c s =
     (if c \<in> set (closeHandlers s) then
        (let s1 = say ''SSE connection closed'' s
         in s1\<lparr>closedTransports :=
                  closedTransports s1 @ (case transport s1 of None \<Rightarrow> [] | Some t \<Rightarrow> [t]),
                transport := None\<rparr>)
      else s)"

text \<open>
  \<open>app.post('/message')\<close>. When the transport has already answered on \<open>res\<close> and then
  throws, \<open>res.status(500).json(...)\<close> cannot write a second response (the headers are
  sent), so none is recorded.
\<close>

definition post :: "sdk \<Rightarrow> msg \<Rightarrow> app \<Rightarrow> app" where
  "post k m s =
     (let s1 = say ''Received message:'' s
      in case transport s1 of
           None \<Rightarrow>
             (say ''No transport available - queueing message'' s1)
               \<lparr>messageQueue := messageQueue s1 @ [m]\<rparr>
         | Some t \<Rightarrow>
             (case handlePostMessage k t m of
                (replied, thrown) \<Rightarrow>
                  (let s2 = s1\<lparr>delivered := delivered s1 @ [(t, m)],
                              responses := responses s1 @
                                (if replied then [(req_id m, TransportReply)] else [])\<rparr>
                   in case thrown of
                        None \<Rightarrow> say ''Message handled successfully'' s2
                      | Some err \<Rightarrow>
                          (say ''Error handling message:'' s2)
                            \<lparr>responses := responses s2 @
                               (if replied then []
                                else [(req_id m, Json500 (opt_chain (body m) ''id'') (show_exn err))])\<rparr>)))"

definition app0 :: app where
  "app0 = \<lparr>transport = None, messageQueue = [], delivered = [], responses = [],
           sse_status = [], closeHandlers = [], closedTransports = [], console = []\<rparr>"

text \<open>The responses written so far to the sink of request \<open>i\<close>.\<close>

definition responses_to :: "nat \<Rightarrow> app \<Rightarrow> reply list" where
  "responses_to i s = map snd (filter (\<lambda>r. fst r = i) (responses s))"

text \<open>The events an app sees, one handler run per event.\<close>

datatype event = Sse nat | Post msg | Closed nat

fun step :: "sdk \<Rightarrow> bool \<Rightarrow> event \<Rightarrow> app \<Rightarrow> app" where
  "step k mcp (Sse c) s = sse k mcp c s"
| "step k mcp (Post m) s = post k m s"
| "step k mcp (Closed c) s = connection_closed c s"

section \<open>Server lifecycle\<close>

text \<open>
  The two globals \<open>mcpServer\<close> and \<open>httpServer\<close> (\<open>None\<close> is \<open>undefined\<close>), each holding the
  number of the object created for it. \<open>listening\<close> lists the HTTP servers that hold a
  port, so \<open>httpServer.address()\<close> is a lookup in it, \<open>null\<close> for a server that does not
  listen. The remaining fields record the \<open>close()\<close> calls and the messages shown.
\<close>

datatype notification = Information string | ErrorMessage string

record lifecycle =
  mcpServer :: "nat option"
  httpServer :: "nat option"
  listening :: "(nat \<times> nat) list"
  fresh :: nat
  mcp_closed :: "nat list"
  http_closed :: "nat list"
  notifications :: "notification list"
  commands_registered :: bool

record server_info =
  info_mcpServer :: nat
  info_httpServer :: nat
  info_port :: nat

definition address :: "lifecycle \<Rightarrow> nat \<Rightarrow> nat option" where
  "address s h = map_of (listening s) h"

definition notify :: "notification \<Rightarrow> lifecycle \<Rightarrow> lifecycle" where
  "notify n s = s\<lparr>notifications := notifications s @ [n]\<rparr>"

definition null_port_error :: exn where
  "null_port_error =
     Error (''Cannot read properties of null (reading '' @ [CHR 0x27] @ ''port'' @ [CHR 0x27] @ '')'')"

text \<open>
  \<open>startMcpServer(port)\<close>: both globals are assigned before the port is read back.
  \<open>busy\<close> tells which ports another process holds; \<open>app.listen\<close> on a port that is busy,
  or held by a listener of this process, leaves a server with no address, and reading
  \<open>.port\<close> of \<open>null\<close> throws.
\<close>

definition startMcpServer :: "(nat \<Rightarrow> bool) \<Rightarrow> nat \<Rightarrow> lifecycle \<Rightarrow> (exn + server_info) \<times> lifecycle" where
  "startMcpServer busy port s =
     (let m = fresh s;
          h = fresh s + 1;
          s1 = s\<lparr>mcpServer := Some m, httpServer := Some h, fresh := fresh s + 2\<rparr>
      in if busy port \<or> port \<in> snd ` set (listening s) then (Inl null_port_error, s1)
         else (Inr \<lparr>info_mcpServer = m, info_httpServer = h, info_port = port\<rparr>,
               s1\<lparr>listening := (h, port) # listening s1\<rparr>))"

text \<open>The command \<open>langmcpserver.startServer\<close>.\<close>

definition startServer :: "(nat \<Rightarrow> bool) \<Rightarrow> lifecycle \<Rightarrow> lifecycle" where
  "startServer busy s =
     (case httpServer s of
        Some h \<Rightarrow>
          (case address s h of
             Some p \<Rightarrow>
               notify (Information (''MCP server is already running on port '' @ string_of_nat p)) s
           | None \<Rightarrow>
               notify (ErrorMessage (''Failed to start MCP server: '' @ errorMessage null_port_error)) s)
      | None \<Rightarrow>
          (case startMcpServer busy 8008 s of
             (Inr serverInfo, s1) \<Rightarrow>
               notify (Information (''MCP server started on port '' @ string_of_nat (info_port serverInfo))) s1
           | (Inl err, s1) \<Rightarrow>
               notify (ErrorMessage (''Failed to start MCP server: '' @ errorMessage err)) s1))"

text \<open>The command \<open>langmcpserver.stopServer\<close>.\<close>

definition stopServer :: "lifecycle \<Rightarrow> lifecycle" where
  "stopServer s =
     (if httpServer s = None \<and> mcpServer s = None then
        notify (Information ''No MCP server is currently running'') s
      else
        (let s1 = (case mcpServer s of
                     Some m \<Rightarrow> s\<lparr>mcp_closed := mcp_closed s @ [m], mcpServer := None\<rparr>
                   | None \<Rightarrow> s);
             s2 = (case httpServer s1 of
                     Some h \<Rightarrow>
                       s1\<lparr>http_closed := http_closed s1 @ [h],
                          listening := filter (\<lambda>l. fst l \<noteq> h) (listening s1),
                          httpServer := None\<rparr>
                   | None \<Rightarrow> s1)
         in notify (Information ''MCP server stopped'') s2))"

text \<open>\<open>deactivate\<close> closes what the globals hold and leaves the globals as they are.\<close>

definition deactivate :: "lifecycle \<Rightarrow> lifecycle" where
  "deactivate s =
     (let s1 = (case mcpServer s of
                  Some m \<Rightarrow> s\<lparr>mcp_closed := mcp_closed s @ [m]\<rparr>
                | None \<Rightarrow> s)
      in case httpServer s1 of
           Some h \<Rightarrow>
             s1\<lparr>http_closed := http_closed s1 @ [h],
                listening := filter (\<lambda>l. fst l \<noteq> h) (listening s1)\<rparr>
         | None \<Rightarrow> s1)"

text \<open>\<open>activate\<close>: the commands are registered only when the first start succeeds.\<close>

definition activate :: "(nat \<Rightarrow> bool) \<Rightarrow> lifecycle \<Rightarrow> lifecycle" where
  "activate busy s =
     (case startMcpServer busy 8008 s of
        (Inr serverInfo, s1) \<Rightarrow>
          (notify (Information (''MCP server running on port '' @ string_of_nat (info_port serverInfo))) s1)
            \<lparr>commands_registered := True\<rparr>
      | (Inl err, s1) \<Rightarrow>
          notify (ErrorMessage (''Failed to start MCP server: '' @ errorMessage err)) s1)"

definition lifecycle0 :: lifecycle where
  "lifecycle0 = \<lparr>mcpServer = None, httpServer = None, listening = [], fresh = 0,
                 mcp_closed = [], http_closed = [], notifications = [],
                 commands_registered = False\<rparr>"

section \<open>A host for the examples\<close>

text \<open>
  The editor's behaviour on the values the examples use. \<open>Uri.parse\<close> is lenient: it
  takes the string form of its argument, so \<open>undefined\<close> parses as the file path
  \<open>/undefined\<close>. The constructor of \<open>vscode.Position\<close> rejects a negative number and stores
  anything else. One document, \<open>file:///b.ts\<close>, can be opened.
\<close>

definition example_Uri_parse :: "json \<Rightarrow> exn + uri" where
  "example_Uri_parse v =
     (case v of
        JStr s \<Rightarrow> Inr (Uri s)
      | JNull \<Rightarrow> Inr (Uri ''file:///null'')
      | _ \<Rightarrow> Inr (Uri ''file:///undefined''))"

fun negative_number :: "json \<Rightarrow> bool" where
  "negative_number (JNum n) = (n < 0)"
| "negative_number v = False"

definition example_Position :: "json \<Rightarrow> json \<Rightarrow> exn + position" where
  "example_Position l c =
     (if negative_number l then Inl (Error ''Illegal argument: line must be non-negative'')
      else if negative_number c then Inl (Error ''Illegal argument: character must be non-negative'')
      else Inr (Position l c))"

definition b_ts :: document where
  "b_ts = [''import { f } from ./a;'', [], ''export function g() {'', ''  f(1);'',
           ''  let x = 0;'', ''  x += 1;'', [], ''  return f(x);  '', ''}'']"

definition example_open :: "uri \<Rightarrow> exn + document" where
  "example_open u =
     (if u = Uri ''file:///b.ts'' then Inr b_ts else Inl (Error ''cannot open the document''))"

definition example_env :: "(exn + location list option) \<Rightarrow> env" where
  "example_env found =
     \<lparr>decodeURIComponent = Inr,
      Uri_parse = example_Uri_parse,
      new_Position = example_Position,
      executeReferenceProvider = (\<lambda>u p. found),
      openTextDocument = example_open\<rparr>"

definition at_line :: "string \<Rightarrow> nat \<Rightarrow> location" where
  "at_line u n =
     \<lparr>loc_uri = Uri u,
      loc_range = \<lparr>range_start = \<lparr>line = n, character = 2\<rparr>,
                   range_end = \<lparr>line = n, character = 3\<rparr>\<rparr>\<rparr>"

definition example_request :: request where
  "example_request =
     \<lparr>name = ''find_usages'',
      arguments = JObj [(''textDocument'', JObj [(''uri'', JStr ''file:///a.ts'')]),
                        (''position'', JObj [(''line'', JNum 0), (''character'', JNum 0)])]\<rparr>"

text \<open>
  Three locations, the middle one in a document that cannot be opened; and a request whose
  position holds a string for the line and no character.
\<close>

definition three_locations :: "location list" where
  "three_locations =
     [at_line ''file:///b.ts'' 3, at_line ''file:///gone.ts'' 0, at_line ''file:///b.ts'' 7]"

definition odd_position_request :: request where
  "odd_position_request =
     \<lparr>name = ''find_usages'',
      arguments = JObj [(''textDocument'', JObj [(''uri'', JStr ''file:///a.ts'')]),
                        (''position'', JObj [(''line'', JStr ''abc'')])]\<rparr>"

definition negative_line_request :: request where
  "negative_line_request =
     \<lparr>name = ''find_usages'',
      arguments = JObj [(''textDocument'', JObj [(''uri'', JStr ''file:///a.ts'')]),
                        (''position'', JObj [(''line'', JNum (- 1)), (''character'', JNum 0)])]\<rparr>"

definition no_uri_request :: request where
  "no_uri_request =
     \<lparr>name = ''find_usages'',
      arguments = JObj [(''position'', JObj [(''line'', JNum 0), (''character'', JNum 0)])]\<rparr>"

text \<open>
  A transport that answers every message but the one of request 2, on which it throws
  before writing anything.
\<close>

definition example_sdk :: sdk where
  "example_sdk =
     \<lparr>connect = (\<lambda>c. None),
      handlePostMessage =
        (\<lambda>t m. if req_id m = 2 then (False, Some (Error ''boom'')) else (True, None))\<rparr>"

definition message :: "nat \<Rightarrow> msg" where
  "message i =
     \<lparr>req_id = i,
      body = JObj [(''jsonrpc'', JStr ''2.0''), (''id'', JNum (int i)), (''method'', JStr ''tools/list'')]\<rparr>"

text \<open>
  A transport layer on which the first connection fails to connect: its transport never
  gets its stream, so it answers a message with an error of its own and throws.
\<close>

definition flaky_sdk :: sdk where
  "flaky_sdk =
     \<lparr>connect = (\<lambda>c. if c = 1 then Some (Error ''connect failed'') else None),
      handlePostMessage =
        (\<lambda>t m. if t = 1 then (True, Some (Error ''SSE connection not established''))
               else (True, None))\<rparr>"

text \<open>Requests and a host for the error paths.\<close>

definition unknown_tool_request :: request where
  "unknown_tool_request = \<lparr>name = ''unknown_tool'', arguments = JObj []\<rparr>"

definition string_arguments_request :: request where
  "string_arguments_request = \<lparr>name = ''find_usages'', arguments = JStr ''file:///a.ts''\<rparr>"

definition strict_uri_env :: env where
  "strict_uri_env =
     (example_env (Inr None))
       \<lparr>Uri_parse := (\<lambda>v. Inl (Error ''[UriError]: Scheme contains illegal characters.''))\<rparr>"

section \<open>Properties of the reference loop\<close>

text \<open>
  The loop, in closed form: a location contributes its entry when its preview resolves
  and a console warning when it does not; the accumulators only grow at the end.
\<close>

lemma references_loop_eq:
  "references_loop e ls acc fx =
     (acc @ concat (map (\<lambda>l. case location_preview e l of
                                 Inr p \<Rightarrow> [to_reference l p] | Inl err \<Rightarrow> []) ls),
      fx @ concat (map (\<lambda>l. case location_preview e l of
                                Inr p \<Rightarrow> []
                              | Inl err \<Rightarrow> [ConsoleWarn (''Failed to get preview for reference: ''
                                                         @ show_exn err)]) ls))"
  by (induction ls arbitrary: acc fx) (auto split: sum.splits)

lemma pushed_all_ok:
  "map (location_preview e) ls = map Inr ps \<Longrightarrow>
   concat (map (\<lambda>l. case location_preview e l of
                       Inr p \<Rightarrow> [to_reference l p] | Inl err \<Rightarrow> []) ls)
     = map2 to_reference ls ps"
  by (induction ls arbitrary: ps) auto

lemma warned_all_ok:
  "map (location_preview e) ls = map Inr ps \<Longrightarrow>
   concat (map (\<lambda>l. case location_preview e l of
                       Inr p \<Rightarrow> [] | Inl err \<Rightarrow> [ConsoleWarn (f err)]) ls) = []"
  by (induction ls arbitrary: ps) auto

text \<open>The unused helper does substitute the sentinel when the document cannot be opened.\<close>

lemma getPreviewForReference_unavailable:
  "decodeURIComponent e (resp_uri r) = Inr s \<Longrightarrow> Uri_parse e (JStr s) = Inr u \<Longrightarrow>
   openTextDocument e u = Inl err \<Longrightarrow> getPreviewForReference e r = ''Preview unavailable''"
  by (simp add: getPreviewForReference_def)

text \<open>The path of \<open>find_usages\<close> on which the provider returns an array.\<close>

lemma find_usages_found:
  assumes "truthy args" "typeof_object args"
    and "Uri_parse e (opt_chain (get_prop args ''textDocument'') ''uri'') = Inr u"
    and "new_Position e (opt_chain (get_prop args ''position'') ''line'')
           (opt_chain (get_prop args ''position'') ''character'') = Inr p"
    and "executeReferenceProvider e u p = Inr (Some ls)"
  shows "find_usages e args =
     (\<lparr>content = text_content (JSON_stringify (fst (references_loop e ls [] [ProviderCall u p]))),
       isError = None\<rparr>,
      snd (references_loop e ls [] [ProviderCall u p]) @
        [ConsoleLog (''Found '' @
           string_of_nat (length (fst (references_loop e ls [] [ProviderCall u p]))) @
           '' references'')])"
  using assms by (simp add: find_usages_def not_object_def split: prod.splits)

lemma errorMessage_ex: "\<exists>err. x = errorMessage err"
  by (rule exI [of _ "Error x"]) simp

subsection \<open>The example host\<close>

lemma example_previews:
  "location_preview (example_env found) (at_line ''file:///b.ts'' 3) = Inr ''f(1);''"
  "location_preview (example_env found) (at_line ''file:///b.ts'' 7) = Inr ''return f(x);''"
  "location_preview (example_env found) (at_line ''file:///gone.ts'' 0)
     = Inl (Error ''cannot open the document'')"
  by (simp_all add: location_preview_def example_env_def example_open_def at_line_def b_ts_def
        lineAt_def trim_def is_space_def)

lemma example_request_args:
  "truthy (arguments example_request)"
  "typeof_object (arguments example_request)"
  "Uri_parse (example_env found)
     (opt_chain (get_prop (arguments example_request) ''textDocument'') ''uri'')
     = Inr (Uri ''file:///a.ts'')"
  "new_Position (example_env found)
     (opt_chain (get_prop (arguments example_request) ''position'') ''line'')
     (opt_chain (get_prop (arguments example_request) ''position'') ''character'')
     = Inr (Position (JNum 0) (JNum 0))"
  "executeReferenceProvider (example_env found) u p = found"
  "\<lparr>name = ''find_usages'', arguments = arguments example_request\<rparr> = example_request"
  "name example_request = ''find_usages''"
  by (simp_all add: example_request_def example_env_def example_Uri_parse_def example_Position_def)

section \<open>Preview failures (C1)\<close>

text \<open>
  C1, as the code has it. When the provider returns the locations \<open>before @ l # after\<close>,
  the preview of \<open>l\<close> fails and every other preview resolves, the invocation is not
  aborted: the envelope is the success envelope, which has no \<open>isError\<close> field, and its
  payload is the serialisation of the entries of \<open>before\<close> and \<open>after\<close>, in the provider's
  order, each with its own preview. The failing location is warned about on the console
  and is not in the list; nothing is substituted for its preview.
\<close>

theorem preview_failure_skips_location:
  assumes "truthy args" "typeof_object args"
    and "Uri_parse e (opt_chain (get_prop args ''textDocument'') ''uri'') = Inr u"
    and "new_Position e (opt_chain (get_prop args ''position'') ''line'')
           (opt_chain (get_prop args ''position'') ''character'') = Inr p"
    and "executeReferenceProvider e u p = Inr (Some (before @ l # after))"
    and "map (location_preview e) before = map Inr ps"
    and "location_preview e l = Inl err"
    and "map (location_preview e) after = map Inr qs"
  shows "call_tool e \<lparr>name = ''find_usages'', arguments = args\<rparr> =
     (\<lparr>content = text_content
          (JSON_stringify (map2 to_reference before ps @ map2 to_reference after qs)),
       isError = None\<rparr>,
      [ProviderCall u p,
       ConsoleWarn (''Failed to get preview for reference: '' @ show_exn err),
       ConsoleLog (''Found '' @ string_of_nat (length before + length after) @ '' references'')])"
proof -
  have lp: "length ps = length before" "length qs = length after"
    using assms(6,8) by (metis length_map)+
  have "references_loop e (before @ l # after) [] [ProviderCall u p] =
      (map2 to_reference before ps @ map2 to_reference after qs,
       [ProviderCall u p, ConsoleWarn (''Failed to get preview for reference: '' @ show_exn err)])"
    using assms(6,7,8)
    by (simp add: references_loop_eq pushed_all_ok warned_all_ok)
  then show ?thesis
    using find_usages_found [OF assms(1-5)] lp
    by (simp add: call_tool_def)
qed

text \<open>
  The theorem at three locations, the second in a document that cannot be opened: two
  entries come back.
\<close>

theorem preview_failure_skips_location_witness:
  "call_tool (example_env (Inr (Some three_locations))) example_request =
     (\<lparr>content = text_content (JSON_stringify
         [to_reference (at_line ''file:///b.ts'' 3) ''f(1);'',
          to_reference (at_line ''file:///b.ts'' 7) ''return f(x);'']),
       isError = None\<rparr>,
      [ProviderCall (Uri ''file:///a.ts'') (Position (JNum 0) (JNum 0)),
       ConsoleWarn ''Failed to get preview for reference: Error: cannot open the document'',
       ConsoleLog ''Found 2 references''])"
proof -
  have three: "executeReferenceProvider (example_env (Inr (Some three_locations)))
      (Uri ''file:///a.ts'') (Position (JNum 0) (JNum 0))
        = Inr (Some ([at_line ''file:///b.ts'' 3] @ at_line ''file:///gone.ts'' 0
                       # [at_line ''file:///b.ts'' 7]))"
    by (simp add: example_request_args three_locations_def)
  have ok1: "map (location_preview (example_env (Inr (Some three_locations))))
      [at_line ''file:///b.ts'' 3] = map Inr [''f(1);'']"
    by (simp add: example_previews)
  have ok2: "map (location_preview (example_env (Inr (Some three_locations))))
      [at_line ''file:///b.ts'' 7] = map Inr [''return f(x);'']"
    by (simp add: example_previews)
  show ?thesis
    using preview_failure_skips_location
      [OF example_request_args(1) example_request_args(2) example_request_args(3)
          example_request_args(4) three ok1 example_previews(3) ok2]
    by (simp add: example_request_args string_of_nat.simps)
qed

text \<open>
  Against C1 as stated: with three locations of which the second has no preview, the
  envelope holds two entries and no \<open>isError\<close> field; it is not the envelope with three
  entries, the sentinel in the second, and \<open>isError = false\<close>.
\<close>

theorem preview_failure_counterexample:
  "location_preview (example_env (Inr (Some three_locations))) (at_line ''file:///gone.ts'' 0)
     = Inl (Error ''cannot open the document'') \<and>
   fst (call_tool (example_env (Inr (Some three_locations))) example_request) =
     \<lparr>content = text_content (JSON_stringify
         [to_reference (at_line ''file:///b.ts'' 3) ''f(1);'',
          to_reference (at_line ''file:///b.ts'' 7) ''return f(x);'']),
      isError = None\<rparr> \<and>
   fst (call_tool (example_env (Inr (Some three_locations))) example_request) \<noteq>
     \<lparr>content = text_content (JSON_stringify
         [to_reference (at_line ''file:///b.ts'' 3) ''f(1);'',
          to_reference (at_line ''file:///gone.ts'' 0) ''Preview unavailable'',
          to_reference (at_line ''file:///b.ts'' 7) ''return f(x);'']),
      isError = Some False\<rparr>"
  by (simp add: call_tool_def example_request_args find_usages_found [OF example_request_args(1-4)]
        three_locations_def references_loop_eq example_previews)

section \<open>No locations (C2)\<close>

text \<open>
  C2 at a provider that returns the empty array: the guard \<open>!locations\<close> does not fire on
  an array, the loop runs no pass, and the payload is the serialised empty array in an
  envelope with no \<open>isError\<close> field, not the text \<open>No references found\<close>.
\<close>

theorem empty_locations_payload:
  "call_tool (example_env (Inr (Some []))) example_request =
     (\<lparr>content = text_content ''[]'', isError = None\<rparr>,
      [ProviderCall (Uri ''file:///a.ts'') (Position (JNum 0) (JNum 0)),
       ConsoleLog ''Found 0 references''])"
  by (simp add: call_tool_def example_request_args find_usages_found [OF example_request_args(1-4)]
        JSON_stringify_def string_of_nat.simps)

text \<open>Only a provider that resolves to \<open>undefined\<close> gets the explicit text.\<close>

lemma undefined_locations_text:
  "call_tool (example_env (Inr None)) example_request =
     (\<lparr>content = text_content ''No references found'', isError = Some False\<rparr>,
      [ProviderCall (Uri ''file:///a.ts'') (Position (JNum 0) (JNum 0))])"
  by (simp add: call_tool_def find_usages_def not_object_def example_request_args)

section \<open>Argument checks (C5, C10)\<close>

text \<open>
  C5 at a request with no \<open>textDocument\<close>: \<open>Uri.parse\<close> is handed \<open>undefined\<close> and returns
  a Uri object, which \<open>!uri\<close> never rejects, so the invocation goes on to the provider
  instead of failing with the invalid-arguments envelope.
\<close>

theorem missing_uri_reaches_provider:
  "Uri_parse (example_env (Inr None)) JUndefined = Inr (Uri ''file:///undefined'') \<and>
   call_tool (example_env (Inr None)) no_uri_request =
     (\<lparr>content = text_content ''No references found'', isError = Some False\<rparr>,
      [ProviderCall (Uri ''file:///undefined'') (Position (JNum 0) (JNum 0))])"
  by (simp add: call_tool_def find_usages_def no_uri_request_def example_env_def
        example_Uri_parse_def example_Position_def not_object_def)

text \<open>A uri on which \<open>Uri.parse\<close> throws does fail the invocation before the provider call.\<close>

lemma unparseable_uri_fails:
  "truthy args \<Longrightarrow> typeof_object args \<Longrightarrow>
   Uri_parse e (opt_chain (get_prop args ''textDocument'') ''uri'') = Inl err \<Longrightarrow>
   call_tool e \<lparr>name = ''find_usages'', arguments = args\<rparr> =
     (\<lparr>content = text_content (''Error: '' @ errorMessage err), isError = Some True\<rparr>, [])"
  by (simp add: call_tool_def find_usages_def error_envelope_def)

text \<open>
  C10, as the code has it. Once \<open>Uri.parse\<close> has returned a Uri, the handler checks nothing
  about the position: it hands \<open>position?.line\<close> and \<open>position?.character\<close>, whatever they
  are, to the constructor of \<open>vscode.Position\<close>. Either the constructor throws, and the
  invocation fails with the outer catch's envelope for that error and no provider call;
  or it returns a position, and the provider is called with the Uri and that position,
  the envelope being one of the three the provider's outcome decides. No envelope of the
  handler's own complains about the position.
\<close>

theorem position_unvalidated:
  assumes "truthy args" "typeof_object args"
    and "Uri_parse e (opt_chain (get_prop args ''textDocument'') ''uri'') = Inr u"
  shows "(\<exists>err. new_Position e (opt_chain (get_prop args ''position'') ''line'')
                  (opt_chain (get_prop args ''position'') ''character'') = Inl err \<and>
            call_tool e \<lparr>name = ''find_usages'', arguments = args\<rparr> = (error_envelope err, [])) \<or>
         (\<exists>p rest. new_Position e (opt_chain (get_prop args ''position'') ''line'')
                  (opt_chain (get_prop args ''position'') ''character'') = Inr p \<and>
            snd (call_tool e \<lparr>name = ''find_usages'', arguments = args\<rparr>) = ProviderCall u p # rest \<and>
            (\<exists>t. content (fst (call_tool e \<lparr>name = ''find_usages'', arguments = args\<rparr>))
                    = text_content t \<and>
               (t = ''Error: Failed to find references'' \<or> t = ''No references found'' \<or>
                (\<exists>refs. t = JSON_stringify refs))))"
  using assms
  by (auto simp: call_tool_def find_usages_def not_object_def error_envelope_def references_loop_eq
        split: sum.splits option.splits prod.splits)

text \<open>
  The theorem at a request whose line is the string \<open>abc\<close> and whose character is
  missing: the provider is called with exactly those two values.
\<close>

theorem position_unvalidated_witness:
  "call_tool (example_env (Inr None)) odd_position_request =
     (\<lparr>content = text_content ''No references found'', isError = Some False\<rparr>,
      [ProviderCall (Uri ''file:///a.ts'') (Position (JStr ''abc'') JUndefined)])"
proof -
  have a: "truthy (arguments odd_position_request)" "typeof_object (arguments odd_position_request)"
    "Uri_parse (example_env (Inr None))
       (opt_chain (get_prop (arguments odd_position_request) ''textDocument'') ''uri'')
       = Inr (Uri ''file:///a.ts'')"
    by (simp_all add: odd_position_request_def example_env_def example_Uri_parse_def)
  show ?thesis
    using position_unvalidated [OF a]
    by (simp add: call_tool_def find_usages_def odd_position_request_def example_env_def
        example_Uri_parse_def example_Position_def not_object_def)
qed

text \<open>
  Against C10 as stated: a parseable uri with line \<open>-1\<close>. The constructor of
  \<open>vscode.Position\<close> rejects the negative line, the outer catch turns that into an error
  envelope that names the line, and the provider is never called.
\<close>

theorem negative_line_counterexample:
  "Uri_parse (example_env (Inr None)) (JStr ''file:///a.ts'') = Inr (Uri ''file:///a.ts'') \<and>
   new_Position (example_env (Inr None)) (JNum (- 1)) (JNum 0)
     = Inl (Error ''Illegal argument: line must be non-negative'') \<and>
   call_tool (example_env (Inr None)) negative_line_request =
     (\<lparr>content = text_content ''Error: Illegal argument: line must be non-negative'',
       isError = Some True\<rparr>, [])"
  by (simp add: call_tool_def find_usages_def negative_line_request_def example_env_def
        example_Uri_parse_def example_Position_def not_object_def error_envelope_def)

section \<open>Response envelopes (C7, C8)\<close>

text \<open>
  C7, as the code has it, path by path; the paths are all there are. Every envelope has
  exactly one content item, of type \<open>text\<close>. Each error path sets \<open>isError = true\<close>: an
  unknown tool, arguments that are no object, a throw of \<open>Uri.parse\<close>, a throw of the
  constructor of \<open>vscode.Position\<close>, a failure of the provider. A provider that resolves
  to \<open>undefined\<close> gives the text \<open>No references found\<close> with \<open>isError = false\<close>. A provider
  that returns an array gives the serialised references in an envelope with no \<open>isError\<close>
  field.
\<close>

theorem envelope_by_path:
  "(name r \<noteq> ''find_usages'' \<longrightarrow>
      fst (call_tool e r) =
        \<lparr>content = [\<lparr>item_type = ''text'', item_text = ''Error: Unknown tool: '' @ name r\<rparr>],
         isError = Some True\<rparr>) \<and>
   (name r = ''find_usages'' \<and> (\<not> truthy (arguments r) \<or> \<not> typeof_object (arguments r)) \<longrightarrow>
      fst (call_tool e r) =
        \<lparr>content = [\<lparr>item_type = ''text'',
                      item_text = ''Invalid arguments: arguments must be an object.''\<rparr>],
         isError = Some True\<rparr>) \<and>
   (name r = ''find_usages'' \<and> truthy (arguments r) \<and> typeof_object (arguments r) \<longrightarrow>
      (\<forall>err. Uri_parse e (opt_chain (get_prop (arguments r) ''textDocument'') ''uri'') = Inl err \<longrightarrow>
         fst (call_tool e r) =
           \<lparr>content = [\<lparr>item_type = ''text'', item_text = ''Error: '' @ errorMessage err\<rparr>],
            isError = Some True\<rparr>) \<and>
      (\<forall>u. Uri_parse e (opt_chain (get_prop (arguments r) ''textDocument'') ''uri'') = Inr u \<longrightarrow>
         (\<forall>err. new_Position e (opt_chain (get_prop (arguments r) ''position'') ''line'')
                  (opt_chain (get_prop (arguments r) ''position'') ''character'') = Inl err \<longrightarrow>
            fst (call_tool e r) =
              \<lparr>content = [\<lparr>item_type = ''text'', item_text = ''Error: '' @ errorMessage err\<rparr>],
               isError = Some True\<rparr>) \<and>
         (\<forall>p. new_Position e (opt_chain (get_prop (arguments r) ''position'') ''line'')
                  (opt_chain (get_prop (arguments r) ''position'') ''character'') = Inr p \<longrightarrow>
            (\<forall>cause. executeReferenceProvider e u p = Inl cause \<longrightarrow>
               fst (call_tool e r) =
                 \<lparr>content = [\<lparr>item_type = ''text'',
                               item_text = ''Error: Failed to find references''\<rparr>],
                  isError = Some True\<rparr>) \<and>
            (executeReferenceProvider e u p = Inr None \<longrightarrow>
               fst (call_tool e r) =
                 \<lparr>content = [\<lparr>item_type = ''text'', item_text = ''No references found''\<rparr>],
                  isError = Some False\<rparr>) \<and>
            (\<forall>ls. executeReferenceProvider e u p = Inr (Some ls) \<longrightarrow>
               fst (call_tool e r) =
                 \<lparr>content = [\<lparr>item_type = ''text'',
                               item_text = JSON_stringify
                                 (fst (references_loop e ls [] [ProviderCall u p]))\<rparr>],
                  isError = None\<rparr>))))"
  by (auto simp: call_tool_def find_usages_def error_envelope_def text_content_def not_object_def
        split: prod.splits)

text \<open>The theorem on each of its seven paths.\<close>

theorem envelope_by_path_witness:
  "fst (call_tool (example_env (Inr None)) unknown_tool_request) =
     \<lparr>content = [\<lparr>item_type = ''text'', item_text = ''Error: Unknown tool: unknown_tool''\<rparr>],
      isError = Some True\<rparr> \<and>
   fst (call_tool (example_env (Inr None)) string_arguments_request) =
     \<lparr>content = [\<lparr>item_type = ''text'',
                   item_text = ''Invalid arguments: arguments must be an object.''\<rparr>],
      isError = Some True\<rparr> \<and>
   fst (call_tool strict_uri_env example_request) =
     \<lparr>content = [\<lparr>item_type = ''text'',
                   item_text = ''Error: [UriError]: Scheme contains illegal characters.''\<rparr>],
      isError = Some True\<rparr> \<and>
   fst (call_tool (example_env (Inr None)) negative_line_request) =
     \<lparr>content = [\<lparr>item_type = ''text'',
                   item_text = ''Error: Illegal argument: line must be non-negative''\<rparr>],
      isError = Some True\<rparr> \<and>
   fst (call_tool (example_env (Inl (Error ''language server crashed''))) example_request) =
     \<lparr>content = [\<lparr>item_type = ''text'', item_text = ''Error: Failed to find references''\<rparr>],
      isError = Some True\<rparr> \<and>
   fst (call_tool (example_env (Inr None)) example_request) =
     \<lparr>content = [\<lparr>item_type = ''text'', item_text = ''No references found''\<rparr>],
      isError = Some False\<rparr> \<and>
   fst (call_tool (example_env (Inr (Some []))) example_request) =
     \<lparr>content = [\<lparr>item_type = ''text'', item_text = ''[]''\<rparr>], isError = None\<rparr>"
proof -
  have unknown: "name unknown_tool_request \<noteq> ''find_usages''"
    by (simp add: unknown_tool_request_def)
  have no_object: "name string_arguments_request = ''find_usages'' \<and>
      (\<not> truthy (arguments string_arguments_request) \<or>
       \<not> typeof_object (arguments string_arguments_request))"
    by (simp add: string_arguments_request_def)
  have strict: "Uri_parse strict_uri_env
      (opt_chain (get_prop (arguments example_request) ''textDocument'') ''uri'')
        = Inl (Error ''[UriError]: Scheme contains illegal characters.'')"
    by (simp add: strict_uri_env_def)
  have neg: "name negative_line_request = ''find_usages'' \<and>
      truthy (arguments negative_line_request) \<and> typeof_object (arguments negative_line_request) \<and>
      Uri_parse (example_env (Inr None))
        (opt_chain (get_prop (arguments negative_line_request) ''textDocument'') ''uri'')
        = Inr (Uri ''file:///a.ts'') \<and>
      new_Position (example_env (Inr None))
        (opt_chain (get_prop (arguments negative_line_request) ''position'') ''line'')
        (opt_chain (get_prop (arguments negative_line_request) ''position'') ''character'')
        = Inl (Error ''Illegal argument: line must be non-negative'')"
    by (simp add: negative_line_request_def example_env_def example_Uri_parse_def
          example_Position_def)
  show ?thesis
    using unknown no_object strict neg
      envelope_by_path [of unknown_tool_request "example_env (Inr None)"]
      envelope_by_path [of string_arguments_request "example_env (Inr None)"]
      envelope_by_path [of example_request strict_uri_env]
      envelope_by_path [of negative_line_request "example_env (Inr None)"]
      envelope_by_path [of example_request "example_env (Inl (Error ''language server crashed''))"]
      envelope_by_path [of example_request "example_env (Inr None)"]
      envelope_by_path [of example_request "example_env (Inr (Some []))"]
    by (simp add: example_request_args unknown_tool_request_def JSON_stringify_def)
qed

text \<open>So an envelope is of one of three kinds, told apart by its text.\<close>

lemma envelope_shape:
  "\<exists>t. content (fst (call_tool e r)) = [\<lparr>item_type = ''text'', item_text = t\<rparr>] \<and>
     (isError (fst (call_tool e r)) = Some True \<and>
        (t = ''Invalid arguments: arguments must be an object.'' \<or>
         (\<exists>err. t = ''Error: '' @ errorMessage err)) \<or>
      isError (fst (call_tool e r)) = Some False \<and> t = ''No references found'' \<or>
      isError (fst (call_tool e r)) = None \<and> (\<exists>refs. t = JSON_stringify refs))"
  by (auto simp: call_tool_def find_usages_def error_envelope_def text_content_def not_object_def
        errorMessage_ex split: sum.splits option.splits prod.splits)

text \<open>The error paths that need no host: an unknown tool, and arguments that are no object.\<close>

lemma unknown_tool_envelope:
  "name r \<noteq> ''find_usages'' \<Longrightarrow>
   call_tool e r =
     (\<lparr>content = text_content (''Error: Unknown tool: '' @ name r), isError = Some True\<rparr>, [])"
  by (simp add: call_tool_def error_envelope_def)

lemma non_object_arguments_envelope:
  "\<not> truthy args \<or> \<not> typeof_object args \<Longrightarrow>
   call_tool e \<lparr>name = ''find_usages'', arguments = args\<rparr> =
     (\<lparr>content = text_content ''Invalid arguments: arguments must be an object.'',
       isError = Some True\<rparr>, [])"
  by (auto simp: call_tool_def find_usages_def)

text \<open>
  Against C7 as stated: a provider that returns two locations in \<open>b.ts\<close>, lines 3 and 7.
  The envelope of the serialised references has no \<open>isError\<close> field.
\<close>

theorem success_envelope_counterexample:
  "isError (fst (call_tool
      (example_env (Inr (Some [at_line ''file:///b.ts'' 3, at_line ''file:///b.ts'' 7])))
      example_request)) = None"
  by (simp add: call_tool_def find_usages_found [OF example_request_args(1-4)] example_request_args)

text \<open>
  C8, as the code has it. When the provider call itself throws, whatever the cause, the
  envelope has \<open>isError = true\<close> and its text is \<open>Error: Failed to find references\<close>: the
  generic message behind the prefix the outer catch gives every error. The cause goes to
  the console only.
\<close>

theorem provider_failure_generic:
  assumes "truthy args" "typeof_object args"
    and "Uri_parse e (opt_chain (get_prop args ''textDocument'') ''uri'') = Inr u"
    and "new_Position e (opt_chain (get_prop args ''position'') ''line'')
           (opt_chain (get_prop args ''position'') ''character'') = Inr p"
    and "executeReferenceProvider e u p = Inl cause"
  shows "call_tool e \<lparr>name = ''find_usages'', arguments = args\<rparr> =
     (\<lparr>content = text_content ''Error: Failed to find references'', isError = Some True\<rparr>,
      [ProviderCall u p, ConsoleError ''Error finding references:'' cause])"
  using assms by (simp add: call_tool_def find_usages_def not_object_def error_envelope_def)

theorem provider_failure_generic_witness:
  "call_tool (example_env (Inl (Error ''language server crashed''))) example_request =
     (\<lparr>content = text_content ''Error: Failed to find references'', isError = Some True\<rparr>,
      [ProviderCall (Uri ''file:///a.ts'') (Position (JNum 0) (JNum 0)),
       ConsoleError ''Error finding references:'' (Error ''language server crashed'')])"
  using provider_failure_generic
    [OF example_request_args(1) example_request_args(2) example_request_args(3)
        example_request_args(4) example_request_args(5)]
  by (simp add: example_request_args)

text \<open>
  Against C8 as stated: the text returned to the caller is not exactly
  \<open>Failed to find references\<close>.
\<close>

theorem provider_failure_counterexample:
  "content (fst (call_tool (example_env (Inl (Error ''language server crashed''))) example_request))
     = text_content ''Error: Failed to find references'' \<and>
   content (fst (call_tool (example_env (Inl (Error ''language server crashed''))) example_request))
     \<noteq> text_content ''Failed to find references''"
  by (simp add: call_tool_def find_usages_def not_object_def error_envelope_def example_request_args
        text_content_def)

section \<open>The pending queue (C3, C4, C6)\<close>

lemma handle_queued_fields:
  "messageQueue (handle_queued k t m s) = messageQueue s"
  "transport (handle_queued k t m s) = transport s"
  "delivered (handle_queued k t m s) = delivered s @ [(t, m)]"
  "closeHandlers (handle_queued k t m s) = closeHandlers s"
  "responses (handle_queued k t m s) =
     responses s @ (if fst (handlePostMessage k t m) then [(req_id m, TransportReply)] else [])"
  "console (handle_queued k t m s) =
     console s @ (case snd (handlePostMessage k t m) of
                    None \<Rightarrow> [] | Some err \<Rightarrow> [''Error handling queued message:''])"
  by (auto simp: handle_queued_def say_def Let_def split: prod.splits option.splits)

text \<open>The drain loop empties the queue and hands every message over once, in order.\<close>

lemma drain_fields:
  "messageQueue s = q \<Longrightarrow>
     messageQueue (drain k t s) = [] \<and>
     transport (drain k t s) = transport s \<and>
     closeHandlers (drain k t s) = closeHandlers s \<and>
     delivered (drain k t s) = delivered s @ map (Pair t) q \<and>
     responses (drain k t s) =
       responses s @ concat (map (\<lambda>m. if fst (handlePostMessage k t m)
                                        then [(req_id m, TransportReply)] else []) q) \<and>
     console (drain k t s) =
       console s @ concat (map (\<lambda>m. case snd (handlePostMessage k t m) of
                                       None \<Rightarrow> []
                                     | Some err \<Rightarrow> [''Error handling queued message:'']) q)"
proof (induction q arbitrary: s)
  case Nil
  then show ?case by (simp add: drain.simps)
next
  case (Cons m q)
  have "messageQueue (handle_queued k t m (s\<lparr>messageQueue := q\<rparr>)) = q"
    by (simp add: handle_queued_fields)
  from Cons.IH [OF this] Cons.prems show ?case
    by (subst (1 2 3 4 5 6) drain.simps) (simp add: handle_queued_fields)
qed

lemma post_queued:
  "transport s = None \<Longrightarrow>
   post k m s =
     s\<lparr>console := console s @ [''Received message:'', ''No transport available - queueing message''],
       messageQueue := messageQueue s @ [m]\<rparr>"
  by (simp add: post_def say_def Let_def)

lemma posts_queued:
  "transport s = None \<Longrightarrow>
     transport (foldl (\<lambda>s m. post k m s) s ms) = None \<and>
     messageQueue (foldl (\<lambda>s m. post k m s) s ms) = messageQueue s @ ms \<and>
     delivered (foldl (\<lambda>s m. post k m s) s ms) = delivered s \<and>
     responses (foldl (\<lambda>s m. post k m s) s ms) = responses s"
proof (induction ms arbitrary: s)
  case Nil
  then show ?case by simp
next
  case (Cons m ms)
  have "transport (post k m s) = None" using Cons.prems by (simp add: post_queued)
  from Cons.IH [OF this] Cons.prems show ?case by (simp add: post_queued)
qed

lemma post_live_queue:
  "transport s = Some t \<Longrightarrow> messageQueue (post k m s) = messageQueue s"
  by (simp add: post_def say_def Let_def split: prod.splits option.splits)

lemma sse_connected:
  assumes "connect k c = None"
  shows "transport (sse k True c s) = Some c"
    and "messageQueue (sse k True c s) = []"
    and "delivered (sse k True c s) = delivered s @ map (Pair c) (messageQueue s)"
    and "responses (sse k True c s) =
       responses s @ concat (map (\<lambda>m. if fst (handlePostMessage k c m)
                                        then [(req_id m, TransportReply)] else []) (messageQueue s))"
    and "console (sse k True c s) =
       console s @ [''New SSE connection attempt'', ''Server connected to SSE transport''] @
       concat (map (\<lambda>m. case snd (handlePostMessage k c m) of
                           None \<Rightarrow> [] | Some err \<Rightarrow> [''Error handling queued message:''])
                 (messageQueue s))"
  using assms
    drain_fields [of "say ''Server connected to SSE transport''
                        ((say ''New SSE connection attempt'' s)\<lparr>transport := Some c\<rparr>)"
                     "messageQueue s" k c]
  by (simp_all add: sse_def Let_def say_def)

text \<open>
  C3, as the code has it. A message posted while \<open>transport\<close> is \<open>null\<close> is appended to the
  queue together with its response sink. The handler returns without writing anything to
  that sink, neither an acknowledgment nor an error, and without handing the message to
  any transport: the request is left open, its sink in the queue.
\<close>

theorem post_without_channel_queues:
  "transport s = None \<Longrightarrow>
     messageQueue (post k m s) = messageQueue s @ [m] \<and>
     responses (post k m s) = responses s \<and>
     delivered (post k m s) = delivered s \<and>
     transport (post k m s) = None \<and>
     console (post k m s) =
       console s @ [''Received message:'', ''No transport available - queueing message'']"
  by (simp add: post_queued)

theorem post_without_channel_queues_witness:
  "messageQueue (post example_sdk (message 1) app0) = [message 1] \<and>
   responses (post example_sdk (message 1) app0) = [] \<and>
   delivered (post example_sdk (message 1) app0) = []"
proof -
  have h: "transport app0 = None" by (simp add: app0_def)
  show ?thesis
    using post_without_channel_queues [OF h, of example_sdk "message 1"]
    by (simp add: app0_def)
qed

text \<open>
  Against C3 as stated: the first message posted to a fresh app, with no channel, has no
  response written to its sink when the handler returns.
\<close>

theorem post_without_channel_counterexample:
  "transport app0 = None \<and> responses_to 1 (post example_sdk (message 1) app0) = []"
  by (simp add: responses_to_def post_def say_def Let_def app0_def)

lemma sse_queue_cases:
  "messageQueue (sse k mcp c s) = [] \<or> messageQueue (sse k mcp c s) = messageQueue s"
proof (cases "mcp \<and> connect k c = None")
  case True
  then show ?thesis using sse_connected(2) [of k c s] by simp
next
  case False
  then show ?thesis
    by (auto simp: sse_def Let_def say_def split: option.splits)
qed

text \<open>Whatever the event, the queue gets longer only in a state without a transport.\<close>

lemma step_queue_growth:
  "length (messageQueue s) < length (messageQueue (step k mcp ev s)) \<Longrightarrow>
   transport s = None \<and> (\<exists>m. ev = Post m)"
proof (cases ev)
  case (Sse c)
  assume "length (messageQueue s) < length (messageQueue (step k mcp ev s))"
  with Sse sse_queue_cases [of k mcp c s] show ?thesis by auto
next
  case (Post m)
  assume g: "length (messageQueue s) < length (messageQueue (step k mcp ev s))"
  show ?thesis
  proof (cases "transport s")
    case None
    with Post show ?thesis by simp
  next
    case (Some t)
    with g Post post_live_queue [of s t k m] show ?thesis by simp
  qed
next
  case (Closed c)
  assume "length (messageQueue s) < length (messageQueue (step k mcp ev s))"
  with Closed show ?thesis
    by (simp add: connection_closed_def Let_def say_def split: if_splits)
qed

text \<open>
  The order of delivery when no connection attempt fails in between. Each handler is
  taken to run to its end before the next event is handled.
  The queue grows only while there is no transport: an event that makes the queue longer
  found \<open>transport\<close> unset. From any state without a transport, posting the messages \<open>ms\<close>
  only appends them to the queue, in order, and hands nothing over; when a connection \<open>c\<close>
  then arrives and \<open>connect\<close> succeeds, the queue is emptied, and the messages that were in
  it are handed to the transport of \<open>c\<close> once each, in arrival order, after everything
  handed over before. This holds whatever \<open>handlePostMessage\<close> does on each message: a
  message on which it throws leaves one line on the console and the loop goes on. The
  queue being empty afterwards, a further connection hands nothing over again.
\<close>

theorem queue_fifo_drain:
  "(length (messageQueue s) < length (messageQueue (step k mcp ev s)) \<longrightarrow> transport s = None) \<and>
   (transport s = None \<and> connect k c = None \<longrightarrow>
      (let s1 = foldl (\<lambda>s m. post k m s) s ms;
           s2 = sse k True c s1
       in transport s1 = None \<and>
          messageQueue s1 = messageQueue s @ ms \<and>
          delivered s1 = delivered s \<and>
          transport s2 = Some c \<and>
          messageQueue s2 = [] \<and>
          delivered s2 = delivered s @ map (Pair c) (messageQueue s @ ms) \<and>
          console s2 =
            console s1 @ [''New SSE connection attempt'', ''Server connected to SSE transport''] @
            concat (map (\<lambda>m. case snd (handlePostMessage k c m) of
                                None \<Rightarrow> []
                              | Some err \<Rightarrow> [''Error handling queued message:''])
                      (messageQueue s @ ms)) \<and>
          delivered (sse k True c s2) = delivered s2))"
  using posts_queued [of s k ms] step_queue_growth [of s k mcp ev]
  by (auto simp: Let_def sse_connected)

text \<open>
  The theorem at three messages posted to a fresh app and then a connection, with a
  transport that throws on the second: all three are handed over, in order, and a fourth
  message posted afterwards is not queued.
\<close>

theorem queue_fifo_drain_witness:
  "let s1 = foldl (\<lambda>s m. post example_sdk m s) app0 [message 1, message 2, message 3];
       s2 = sse example_sdk True 7 s1
   in messageQueue s1 = [message 1, message 2, message 3] \<and> delivered s1 = [] \<and>
      messageQueue s2 = [] \<and>
      delivered s2 = [(7, message 1), (7, message 2), (7, message 3)] \<and>
      messageQueue (post example_sdk (message 4) s2) = []"
proof -
  have h: "transport app0 = None \<and> connect example_sdk 7 = None"
    by (simp add: app0_def example_sdk_def)
  have l: "transport (sse example_sdk True 7
            (foldl (\<lambda>s m. post example_sdk m s) app0 [message 1, message 2, message 3])) = Some 7 \<and>
           messageQueue (sse example_sdk True 7
            (foldl (\<lambda>s m. post example_sdk m s) app0 [message 1, message 2, message 3])) = []"
    using h queue_fifo_drain [of app0 example_sdk True "Post (message 4)" 7
                                "[message 1, message 2, message 3]"]
    by (simp add: Let_def)
  show ?thesis
    using h l
      queue_fifo_drain [of app0 example_sdk True "Post (message 4)" 7
                          "[message 1, message 2, message 3]"]
      queue_fifo_drain [of "sse example_sdk True 7
            (foldl (\<lambda>s m. post example_sdk m s) app0 [message 1, message 2, message 3])"
          example_sdk True "Post (message 4)" 7 "[]"]
    by (simp add: Let_def app0_def)
qed

text \<open>
  C4 at a connection attempt that fails between two posts, all before any channel is
  live. The \<open>/sse\<close> handler sets \<open>transport\<close> before \<open>connect\<close> and neither its catch nor
  its branch for an unset server clears it again, as the close handler does. So the
  second message is not queued: it is handed at once to the transport that never
  connected, ahead of the first message, which waits in the queue until the second
  connection drains it. The messages posted before the channel was established do not
  reach the dispatcher in arrival order.
\<close>

theorem failed_connect_bypasses_queue:
  "connect flaky_sdk 1 = Some (Error ''connect failed'') \<and>
   connect flaky_sdk 2 = None \<and>
   transport (sse flaky_sdk True 1 (post flaky_sdk (message 1) app0)) = Some 1 \<and>
   messageQueue (post flaky_sdk (message 2) (sse flaky_sdk True 1 (post flaky_sdk (message 1) app0)))
     = [message 1] \<and>
   delivered (sse flaky_sdk True 2
       (post flaky_sdk (message 2) (sse flaky_sdk True 1 (post flaky_sdk (message 1) app0))))
     = [(1, message 2), (2, message 1)]"
  by (simp add: post_def sse_def say_def Let_def app0_def flaky_sdk_def drain.simps
        handle_queued_def)

text \<open>
  C6 at a message queued before any channel and replayed on a transport that throws on it
  before answering: the drain loop's catch writes nothing to the message's sink, so its
  caller has no response. The same message posted after the channel is up gets the 500
  answer of the post handler's catch.
\<close>

theorem replay_failure_unanswered:
  "handlePostMessage example_sdk 7 (message 2) = (False, Some (Error ''boom'')) \<and>
   responses_to 2 (sse example_sdk True 7 (post example_sdk (message 2) app0)) = [] \<and>
   responses_to 2 (post example_sdk (message 2) (sse example_sdk True 7 app0))
     = [Json500 (JNum 2) ''Error: boom'']"
  by (simp add: responses_to_def post_def sse_def say_def Let_def app0_def example_sdk_def
        drain.simps handle_queued_def message_def)

section \<open>Start and stop (C9)\<close>

lemma deactivate_nothing_running:
  "httpServer s = None \<Longrightarrow> mcpServer s = None \<Longrightarrow> deactivate s = s"
  by (simp add: deactivate_def)

text \<open>
  C9. Stopping when neither global is set changes nothing but for the information message
  that no server is running; a second stop right after a stop is such a stop. A start
  that succeeded leaves \<open>httpServer\<close> set to a server with an address, and the start
  command run in that state changes nothing but for the information message that the
  server is already running on its port: the globals, the listeners and the \<open>close\<close>
  calls are as they were.
\<close>

theorem lifecycle_idempotence:
  "(httpServer s = None \<and> mcpServer s = None \<longrightarrow>
      stopServer s =
        s\<lparr>notifications := notifications s @ [Information ''No MCP server is currently running'']\<rparr>) \<and>
   stopServer (stopServer s) =
     (stopServer s)\<lparr>notifications := notifications (stopServer s) @
                       [Information ''No MCP server is currently running'']\<rparr> \<and>
   (startMcpServer busy port s = (Inr info, s1) \<longrightarrow>
      httpServer s1 = Some (info_httpServer info) \<and>
      address s1 (info_httpServer info) = Some (info_port info) \<and>
      startServer busy s1 =
        s1\<lparr>notifications := notifications s1 @
              [Information (''MCP server is already running on port '' @
                            string_of_nat (info_port info))]\<rparr>)"
proof (intro conjI impI)
  assume "httpServer s = None \<and> mcpServer s = None"
  then show "stopServer s =
      s\<lparr>notifications := notifications s @ [Information ''No MCP server is currently running'']\<rparr>"
    by (simp add: stopServer_def notify_def)
next
  have "httpServer (stopServer s) = None \<and> mcpServer (stopServer s) = None"
    by (auto simp: stopServer_def notify_def Let_def split: option.splits)
  then show "stopServer (stopServer s) =
     (stopServer s)\<lparr>notifications := notifications (stopServer s) @
                       [Information ''No MCP server is currently running'']\<rparr>"
    by (subst stopServer_def) (simp add: notify_def)
next
  assume a: "startMcpServer busy port s = (Inr info, s1)"
  then show h: "httpServer s1 = Some (info_httpServer info)"
    by (auto simp: startMcpServer_def Let_def split: if_splits)
  from a show p: "address s1 (info_httpServer info) = Some (info_port info)"
    by (auto simp: startMcpServer_def Let_def address_def split: if_splits)
  from h p show "startServer busy s1 =
        s1\<lparr>notifications := notifications s1 @
              [Information (''MCP server is already running on port '' @
                            string_of_nat (info_port info))]\<rparr>"
    by (simp add: startServer_def notify_def)
qed

text \<open>
  The theorem at a fresh process: a stop with nothing running, and a start command after
  a successful start on port 8008.
\<close>

theorem lifecycle_idempotence_witness:
  "stopServer lifecycle0 =
     lifecycle0\<lparr>notifications := [Information ''No MCP server is currently running'']\<rparr> \<and>
   startServer (\<lambda>p. False) (snd (startMcpServer (\<lambda>p. False) 8008 lifecycle0)) =
     \<lparr>mcpServer = Some 0, httpServer = Some 1, listening = [(1, 8008)], fresh = 2,
      mcp_closed = [], http_closed = [],
      notifications = [Information ''MCP server is already running on port 8008''],
      commands_registered = False\<rparr>"
proof -
  have a: "httpServer lifecycle0 = None \<and> mcpServer lifecycle0 = None"
    by (simp add: lifecycle0_def)
  have b: "startMcpServer (\<lambda>p. False) 8008 lifecycle0 =
      (Inr \<lparr>info_mcpServer = 0, info_httpServer = 1, info_port = 8008\<rparr>,
       \<lparr>mcpServer = Some 0, httpServer = Some 1, listening = [(1, 8008)], fresh = 2,
        mcp_closed = [], http_closed = [], notifications = [], commands_registered = False\<rparr>)"
    by (simp add: startMcpServer_def lifecycle0_def Let_def)
  have n: "string_of_nat 8008 = ''8008''"
    by (simp add: string_of_nat.simps)
  show ?thesis
    using a b n
      lifecycle_idempotence [of lifecycle0 "\<lambda>p. False" 8008
        "\<lparr>info_mcpServer = 0, info_httpServer = 1, info_port = 8008\<rparr>"
        "\<lparr>mcpServer = Some 0, httpServer = Some 1, listening = [(1, 8008)], fresh = 2,
          mcp_closed = [], http_closed = [], notifications = [], commands_registered = False\<rparr>"]
    by (simp add: lifecycle0_def)
qed

end
